theory Spec2Isabelle
  imports Complex_Main
begin

section \<open>Python values\<close>

text \<open>
  The two adapters (\<^verbatim>\<open>examples/agent_claude/agent.py\<close> and
  \<^verbatim>\<open>examples/agent_codex/agent.py\<close>) share their helper functions word for word.
  A Python \<open>str\<close> is a \<open>string\<close>: the list of the bytes of its UTF-8 encoding. What the
  adapters themselves do with a string (compare it with an ASCII literal, test it for
  emptiness, concatenate, replace an ASCII character) is the same on the encoding as on
  the \<open>str\<close>. What the standard library does with it (\<open>strip\<close>, \<open>lower\<close>, the expansion of
  a path name, \<open>shlex.split\<close>, \<open>json.loads\<close>) is not defined here: it is taken from the
  library, see below.
\<close>

text \<open>\<open>sep.join(xs)\<close>.\<close>

fun join :: "string \<Rightarrow> string list \<Rightarrow> string" where
  "join sep [] = []"
| "join sep [x] = x"
| "join sep (x # y # ys) = x @ sep @ join sep (y # ys)"

text \<open>\<open>os.environ\<close> is a dictionary from names to values; \<open>os.getenv(name, default)\<close>.\<close>

type_synonym env = "string \<rightharpoonup> string"

definition getenv :: "env \<Rightarrow> string \<Rightarrow> string \<Rightarrow> string" where
  "getenv e name dflt = (case e name of None \<Rightarrow> dflt | Some v \<Rightarrow> v)"

text \<open>
  What \<open>json.loads\<close> returns: \<open>None\<close>, a \<open>bool\<close>, an \<open>int\<close>, a \<open>float\<close>, a \<open>str\<close>,
  a \<open>list\<close> or a \<open>dict\<close> with string keys. A \<open>dict\<close> is an association list in
  insertion order; a key is looked up at its first occurrence. Floats are reals here
  (\<open>NaN\<close> and the infinities are not represented).
\<close>

datatype json =
    JNull
  | JBool bool
  | JInt int
  | JFloat real
  | JStr string
  | JArr "json list"
  | JObj "(string \<times> json) list"

text \<open>Python's truth value of such an object (\<open>if x:\<close>).\<close>

fun truthy :: "json \<Rightarrow> bool" where
  "truthy JNull = False"
| "truthy (JBool b) = b"
| "truthy (JInt i) = (i \<noteq> 0)"
| "truthy (JFloat r) = (r \<noteq> 0)"
| "truthy (JStr s) = (s \<noteq> [])"
| "truthy (JArr xs) = (xs \<noteq> [])"
| "truthy (JObj kvs) = (kvs \<noteq> [])"

text \<open>\<open>d.get(key, default)\<close>: only a \<open>dict\<close> has the method.\<close>

datatype py_error =
    FileExistsError
  | FileNotFoundError
  | NotADirectoryError
  | IsADirectoryError
  | OSError
  | JSONDecodeError
  | AttributeError
  | TypeError
  | ValueError

definition py_get :: "json \<Rightarrow> string \<Rightarrow> json \<Rightarrow> py_error + json" where
  "py_get d key dflt =
     (case d of
        JObj kvs \<Rightarrow> (case map_of kvs key of None \<Rightarrow> Inr dflt | Some v \<Rightarrow> Inr v)
      | _ \<Rightarrow> Inl AttributeError)"

section \<open>The world and the library\<close>

text \<open>What a program prints: a line of text, or the serialised summary dictionary.\<close>

datatype out = Line string | Json "(string \<times> json) list"

text \<open>
  The state a run of an adapter reads and changes: the process environment, the state of
  the file system (of any type \<open>'f\<close>: the adapters reach it through the operating system
  only), what has been printed so far, and the subprocesses started: for each, whether its
  output was captured, its argument vector, and its exit code.
\<close>

record 'f world =
  environ :: env
  files :: 'f
  printed :: "out list"
  spawned :: "(bool \<times> string list \<times> int) list"

text \<open>
  The standard library and the operating system, which the adapters call and do not
  define. Every property below is proved for every such library.
  \<^item> \<open>str.strip\<close>, \<open>str.lower\<close>, \<open>os.path.expanduser\<close>, \<open>os.path.expandvars\<close>;
  \<^item> \<open>shlex.split\<close> and \<open>json.loads\<close>, with the exception when they raise one
    (\<open>ValueError\<close> for a quotation that is not closed, \<open>JSONDecodeError\<close> for a text that
    is not JSON);
  \<^item> \<open>shutil.which\<close>: whether the executable is found, in a given environment and file
    system;
  \<^item> \<open>os.path.isfile\<close> and \<open>os.path.lexists\<close>, on the name as the adapter passes it;
  \<^item> \<open>os.makedirs(name, exist_ok=True)\<close>, \<open>os.remove\<close> and \<open>os.symlink\<close>: each returns
    the file system it leaves, and the exception if it raises one;
  \<^item> reading the text of a file (\<open>open\<close> and \<open>read\<close>);
  \<^item> starting a subprocess with an argument vector, in \<open>/code\<close>: the exception if it
    cannot be started (\<open>ValueError\<close> for a NUL in an argument, \<open>OSError\<close> when the program
    cannot be executed), else the lines it writes (\<open>None\<close> when they are not text in the
    encoding of the locale) and its exit code. What the subprocess does to the file
    system is outside the model;
  \<^item> writing an item to the standard output, after those already written: the exception
    if that fails (the output is closed, or cannot encode the text).
\<close>

record 'f lib =
  str_strip :: "string \<Rightarrow> string"
  str_lower :: "string \<Rightarrow> string"
  expanduser :: "env \<Rightarrow> string \<Rightarrow> string"
  expandvars :: "env \<Rightarrow> string \<Rightarrow> string"
  shlex_split :: "string \<Rightarrow> py_error + string list"
  json_loads :: "string \<Rightarrow> py_error + json"
  which :: "env \<Rightarrow> 'f \<Rightarrow> string \<Rightarrow> bool"
  os_isfile :: "'f \<Rightarrow> string \<Rightarrow> bool"
  os_lexists :: "'f \<Rightarrow> string \<Rightarrow> bool"
  os_makedirs :: "'f \<Rightarrow> string \<Rightarrow> (py_error + unit) \<times> 'f"
  os_remove :: "'f \<Rightarrow> string \<Rightarrow> (py_error + unit) \<times> 'f"
  os_symlink :: "'f \<Rightarrow> string \<Rightarrow> string \<Rightarrow> (py_error + unit) \<times> 'f"
  read_text :: "'f \<Rightarrow> string \<Rightarrow> py_error + string"
  subprocess :: "env \<Rightarrow> 'f \<Rightarrow> string list \<Rightarrow> py_error + string list option \<times> int"
  stdout_write :: "out list \<Rightarrow> out \<Rightarrow> py_error option"

text \<open>
  \<open>os.path.join(a, b)\<close> and \<open>os.path.split\<close>, \<open>os.path.dirname\<close> are the functions of
  \<open>posixpath\<close>, on the names themselves.
\<close>

definition os_path_join :: "string \<Rightarrow> string \<Rightarrow> string" where
  "os_path_join a b =
     (if b \<noteq> [] \<and> hd b = CHR ''/'' then b
      else if a = [] \<or> last a = CHR ''/'' then a @ b
      else a @ ''/'' @ b)"

definition rstrip_char :: "char \<Rightarrow> string \<Rightarrow> string" where
  "rstrip_char c s = rev (dropWhile (\<lambda>x. x = c) (rev s))"

definition os_path_split :: "string \<Rightarrow> string \<times> string" where
  "os_path_split p =
     (let i = length p - length (takeWhile (\<lambda>c. c \<noteq> CHR ''/'') (rev p));
          head = take i p;
          tail = drop i p
      in (if head \<noteq> [] \<and> head \<noteq> replicate (length head) (CHR ''/'')
          then rstrip_char (CHR ''/'') head else head,
          tail))"

definition os_path_dirname :: "string \<Rightarrow> string" where
  "os_path_dirname p = fst (os_path_split p)"

section \<open>Resolving a credential source\<close>

definition expand_path :: "'f lib \<Rightarrow> 'f world \<Rightarrow> string \<Rightarrow> string" where
  "expand_path L w p = expandvars L (environ w) (expanduser L (environ w) p)"

text \<open>
  \<open>resolve_source_file(primary_env, default_path, legacy_env=None)\<close>; \<open>if legacy_env:\<close>
  holds for a name that is given and not the empty string.
\<close>

definition resolve_source_file ::
  "'f lib \<Rightarrow> 'f world \<Rightarrow> string \<Rightarrow> string \<Rightarrow> string option \<Rightarrow> string" where
  "resolve_source_file L w primary_env default_path legacy_env =
     (let primary = str_strip L (getenv (environ w) primary_env []) in
      if primary \<noteq> [] then expand_path L w primary
      else
        (case legacy_env of
           None \<Rightarrow> expand_path L w default_path
         | Some name \<Rightarrow>
             if name \<noteq> [] then
               (let legacy = str_strip L (getenv (environ w) name []) in
                if legacy \<noteq> [] then expand_path L w legacy
                else expand_path L w default_path)
             else expand_path L w default_path))"

definition env_truthy :: "'f lib \<Rightarrow> 'f world \<Rightarrow> string \<Rightarrow> bool" where
  "env_truthy L w name =
     (str_lower L (str_strip L (getenv (environ w) name []))
        \<in> {''1'', ''true'', ''yes'', ''on''})"

section \<open>Materialising the credential files\<close>

definition symlink_file ::
  "'f lib \<Rightarrow> 'f world \<Rightarrow> string \<Rightarrow> string \<Rightarrow> (py_error + bool) \<times> 'f world" where
  "symlink_file L w source_file dest_file =
     (let source_file = expand_path L w source_file;
          dest_file = expand_path L w dest_file
      in if \<not> os_isfile L (files w) source_file then (Inr False, w)
         else
           (case os_makedirs L (files w) (os_path_dirname dest_file) of
              (Inl e, f1) \<Rightarrow> (Inl e, w\<lparr>files := f1\<rparr>)
            | (Inr u, f1) \<Rightarrow>
                (case (if os_lexists L f1 dest_file
                       then os_remove L f1 dest_file else (Inr (), f1)) of
                   (Inl e, f2) \<Rightarrow> (Inl e, w\<lparr>files := f2\<rparr>)
                 | (Inr u, f2) \<Rightarrow>
                     (case os_symlink L f2 source_file dest_file of
                        (Inl e, f3) \<Rightarrow> (Inl e, w\<lparr>files := f3\<rparr>)
                      | (Inr u, f3) \<Rightarrow> (Inr True, w\<lparr>files := f3\<rparr>)))))"

text \<open>
  The body of the loop of \<open>sync_codex_auth\<close> and \<open>sync_claude_auth\<close> for one entry of
  \<open>source_map\<close>, with its three ways out: the destination is a regular file already
  (\<open>"(mounted directly)"\<close> goes to \<open>linked\<close>), \<open>symlink_file\<close> returned \<open>True\<close> (the name
  goes to \<open>linked\<close>), or it returned \<open>False\<close> (the name goes to \<open>missing\<close>).
\<close>

datatype outcome = Mounted | Linked | Missing

definition materialize ::
  "'f lib \<Rightarrow> 'f world \<Rightarrow> string \<Rightarrow> string \<Rightarrow> (py_error + outcome) \<times> 'f world" where
  "materialize L w dst src =
     (if os_isfile L (files w) dst then (Inr Mounted, w)
      else case symlink_file L w src dst of
             (Inl e, w') \<Rightarrow> (Inl e, w')
           | (Inr b, w') \<Rightarrow> (Inr (if b then Linked else Missing), w'))"

fun sync_loop ::
  "'f lib \<Rightarrow> string \<Rightarrow> (string \<times> string) list \<Rightarrow> string list \<times> string list \<Rightarrow> 'f world
     \<Rightarrow> (py_error + string list \<times> string list) \<times> 'f world" where
  "sync_loop L dir [] acc w = (Inr acc, w)"
| "sync_loop L dir ((name, src) # rest) (linked, missing) w =
     (case materialize L w (os_path_join dir name) src of
        (Inl e, w') \<Rightarrow> (Inl e, w')
      | (Inr r, w') \<Rightarrow>
          (case r of
             Mounted \<Rightarrow>
               sync_loop L dir rest (linked @ [name @ '' (mounted directly)''], missing) w'
           | Linked \<Rightarrow> sync_loop L dir rest (linked @ [name], missing) w'
           | Missing \<Rightarrow> sync_loop L dir rest (linked, missing @ [name]) w'))"

text \<open>\<open>print\<close>: the item is written, or the exception of the write escapes.\<close>

definition emit :: "'f lib \<Rightarrow> out \<Rightarrow> 'f world \<Rightarrow> (py_error + unit) \<times> 'f world" where
  "emit L x w =
     (case stdout_write L (printed w) x of
        Some e \<Rightarrow> (Inl e, w)
      | None \<Rightarrow> (Inr (), w\<lparr>printed := printed w @ [x]\<rparr>))"

definition print :: "'f lib \<Rightarrow> string \<Rightarrow> 'f world \<Rightarrow> (py_error + unit) \<times> 'f world" where
  "print L s w = emit L (Line s) w"

text \<open>The two lines at the end of \<open>sync_codex_auth\<close> and \<open>sync_claude_auth\<close>.\<close>

definition report ::
  "'f lib \<Rightarrow> string \<Rightarrow> string list \<times> string list \<Rightarrow> 'f world \<Rightarrow> (py_error + unit) \<times> 'f world" where
  "report L agent acc w =
     (case (if fst acc \<noteq> []
            then print L (''[INFO] '' @ agent @ '' auth/config ready: '' @ join '', '' (fst acc)) w
            else (Inr (), w)) of
        (Inl e, w1) \<Rightarrow> (Inl e, w1)
      | (Inr u, w1) \<Rightarrow>
          if snd acc \<noteq> []
          then print L (''[INFO] '' @ agent @ '' files not found (skipped): ''
                        @ join '', '' (snd acc)) w1
          else (Inr (), w1))"

definition sync_codex_auth :: "'f lib \<Rightarrow> 'f world \<Rightarrow> (py_error + unit) \<times> 'f world" where
  "sync_codex_auth L w =
     (let home_dir = expand_path L w (getenv (environ w) ''HOME'' ''/var/tmp/codex-home'');
          dest_dir = os_path_join home_dir ''.codex''
      in case os_makedirs L (files w) dest_dir of
           (Inl e, f1) \<Rightarrow> (Inl e, w\<lparr>files := f1\<rparr>)
         | (Inr u, f1) \<Rightarrow>
             (let w1 = w\<lparr>files := f1\<rparr>;
                  legacy_source_dir =
                    expand_path L w1 (getenv (environ w1) ''CODEX_AUTH_SOURCE'' ''/host_auth/.codex'');
                  source_map =
                    [(''auth.json'',
                        resolve_source_file L w1 ''CODEX_AUTH_FILE''
                          (os_path_join legacy_source_dir ''auth.json'')
                          (Some ''CODEX_AUTH_SOURCE_FILE'')),
                     (''config.toml'',
                        resolve_source_file L w1 ''CODEX_CONFIG_FILE''
                          (os_path_join legacy_source_dir ''config.toml'') None),
                     (''version.json'',
                        resolve_source_file L w1 ''CODEX_VERSION_FILE''
                          (os_path_join legacy_source_dir ''version.json'') None)]
              in case sync_loop L dest_dir source_map ([], []) w1 of
                   (Inl e, w2) \<Rightarrow> (Inl e, w2)
                 | (Inr acc, w2) \<Rightarrow> report L ''Codex'' acc w2))"

definition sync_claude_auth :: "'f lib \<Rightarrow> 'f world \<Rightarrow> (py_error + unit) \<times> 'f world" where
  "sync_claude_auth L w =
     (let home_dir = expand_path L w (getenv (environ w) ''HOME'' ''/var/tmp/claude-home'')
      in case os_makedirs L (files w) (os_path_join home_dir ''.claude'') of
           (Inl e, f1) \<Rightarrow> (Inl e, w\<lparr>files := f1\<rparr>)
         | (Inr u, f1) \<Rightarrow>
             (let w1 = w\<lparr>files := f1\<rparr>;
                  legacy_dir =
                    expand_path L w1
                      (getenv (environ w1) ''CLAUDE_AUTH_SOURCE_DIR'' ''/host_auth/.claude'');
                  source_map =
                    [(''.claude.json'',
                        resolve_source_file L w1 ''CLAUDE_AUTH_FILE'' ''/host_auth/.claude.json''
                          (Some ''CLAUDE_AUTH_SOURCE_FILE'')),
                     (''.claude/settings.json'',
                        resolve_source_file L w1 ''CLAUDE_SETTINGS_FILE''
                          (os_path_join legacy_dir ''settings.json'') None)]
              in case sync_loop L home_dir source_map ([], []) w1 of
                   (Inl e, w2) \<Rightarrow> (Inl e, w2)
                 | (Inr acc, w2) \<Rightarrow> report L ''Claude'' acc w2))"

section \<open>Reading the prompt\<close>

text \<open>\<open>read_prompt()\<close>: open and read \<open>/code/prompt.json\<close>, parse it, \<open>data.get("prompt", "")\<close>.\<close>

definition read_prompt :: "'f lib \<Rightarrow> 'f world \<Rightarrow> py_error + json" where
  "read_prompt L w =
     (case read_text L (files w) ''/code/prompt.json'' of
        Inl e \<Rightarrow> Inl e
      | Inr content \<Rightarrow>
          (case json_loads L content of
             Inl e \<Rightarrow> Inl e
           | Inr data \<Rightarrow> py_get data ''prompt'' (JStr [])))"

section \<open>Running the external program\<close>

definition setenv :: "string \<Rightarrow> string \<Rightarrow> 'f world \<Rightarrow> 'f world" where
  "setenv name v w = w\<lparr>environ := (environ w)(name \<mapsto> v)\<rparr>"

text \<open>
  The first lines of both \<open>main\<close> functions: pin \<open>HOME\<close> and \<open>XDG_CONFIG_HOME\<close>, make the
  two directories.
\<close>

definition pin_home :: "'f lib \<Rightarrow> string \<Rightarrow> 'f world \<Rightarrow> (py_error + unit) \<times> 'f world" where
  "pin_home L home w =
     (let w1 = setenv ''XDG_CONFIG_HOME'' (home @ ''/.config'') (setenv ''HOME'' home w)
      in case os_makedirs L (files w1) home of
           (Inl e, f1) \<Rightarrow> (Inl e, w1\<lparr>files := f1\<rparr>)
         | (Inr u, f1) \<Rightarrow>
             (case os_makedirs L f1 (home @ ''/.config'') of
                (Inl e, f2) \<Rightarrow> (Inl e, w1\<lparr>files := f2\<rparr>)
              | (Inr u, f2) \<Rightarrow> (Inr (), w1\<lparr>files := f2\<rparr>)))"

text \<open>
  \<open>subprocess.run(cmd, cwd="/code", check=False)\<close> with \<open>cmd\<close> the arguments built so far
  and the prompt appended. An argument that is not a string is a \<open>TypeError\<close>; when the
  start of the process raises, nothing has been started. The subprocess writes to the
  adapter's own output; the adapter prints nothing of it.
\<close>

definition subprocess_run ::
  "'f lib \<Rightarrow> string list \<Rightarrow> json \<Rightarrow> 'f world \<Rightarrow> (py_error + int) \<times> 'f world" where
  "subprocess_run L cmd instruction w =
     (case instruction of
        JStr s \<Rightarrow>
          (case subprocess L (environ w) (files w) (cmd @ [s]) of
             Inl e \<Rightarrow> (Inl e, w)
           | Inr result \<Rightarrow>
               (Inr (snd result),
                w\<lparr>spawned := spawned w @ [(False, cmd @ [s], snd result)]\<rparr>))
      | _ \<Rightarrow> (Inl TypeError, w))"

subsection \<open>The claude adapter\<close>

definition claude_effort_level :: "'f lib \<Rightarrow> 'f world \<Rightarrow> (py_error + unit) \<times> 'f world" where
  "claude_effort_level L w =
     (let effort_level =
            str_lower L (str_strip L (getenv (environ w) ''CLAUDE_CODE_EFFORT_LEVEL'' []))
      in case (if effort_level \<notin> {''low'', ''medium'', ''high''} \<and> effort_level \<noteq> []
               then print L (''[WARNING] Invalid CLAUDE_CODE_EFFORT_LEVEL '' @ [CHR 0x27]
                             @ effort_level @ [CHR 0x27] @ '', defaulting to high'') w
               else (Inr (), w)) of
           (Inl e, w1) \<Rightarrow> (Inl e, w1)
         | (Inr u, w1) \<Rightarrow>
             (let effort_level = (if effort_level \<notin> {''low'', ''medium'', ''high''}
                                  then ''high'' else effort_level)
              in print L (''[INFO] Claude effort level: '' @ effort_level)
                   (setenv ''CLAUDE_CODE_EFFORT_LEVEL'' effort_level w1)))"

text \<open>
  The argument vector of \<open>claude\<close>, up to the prompt: the fixed flags, the model, the
  turn limit and the trajectory flags (\<open>claude_flags\<close>), then the extra arguments;
  \<open>shlex.split\<close> may raise.
\<close>

definition claude_flags :: "'f lib \<Rightarrow> 'f world \<Rightarrow> string list" where
  "claude_flags L w =
     (let cmd = [''claude'', ''-p'', ''--dangerously-skip-permissions'', ''--model'',
                 getenv (environ w) ''CLAUDE_MODEL'' ''opus''];
          max_turns = str_strip L (getenv (environ w) ''CLAUDE_MAX_TURNS'' []);
          cmd = (if max_turns \<noteq> [] then cmd @ [''--max-turns'', max_turns] else cmd)
      in if env_truthy L w ''CLAUDE_TRAJECTORY'' then
           (let c1 = (if ''--output-format'' \<notin> set cmd
                      then cmd @ [''--output-format'', ''stream-json''] else cmd);
                c2 = (if ''--include-partial-messages'' \<notin> set c1
                      then c1 @ [''--include-partial-messages''] else c1)
            in if ''--verbose'' \<notin> set c2 then c2 @ [''--verbose''] else c2)
         else cmd)"

definition claude_cmd :: "'f lib \<Rightarrow> 'f world \<Rightarrow> py_error + string list" where
  "claude_cmd L w =
     (let cmd = claude_flags L w;
          extra_args = str_strip L (getenv (environ w) ''CLAUDE_EXEC_ARGS'' [])
      in if extra_args \<noteq> [] then
           (case shlex_split L extra_args of
              Inl e \<Rightarrow> Inl e
            | Inr toks \<Rightarrow> Inr (cmd @ toks))
         else Inr cmd)"

text \<open>\<open>print(message)\<close> and then \<open>return 1\<close>.\<close>

definition refuse :: "'f lib \<Rightarrow> string \<Rightarrow> 'f world \<Rightarrow> (py_error + int) \<times> 'f world" where
  "refuse L message w =
     (case print L message w of
        (Inl e, w1) \<Rightarrow> (Inl e, w1)
      | (Inr u, w1) \<Rightarrow> (Inr 1, w1))"

definition claude_invoke :: "'f lib \<Rightarrow> 'f world \<Rightarrow> (py_error + int) \<times> 'f world" where
  "claude_invoke L w =
     (if \<not> which L (environ w) (files w) ''claude''
      then refuse L ''[ERROR] claude CLI not found in PATH'' w
      else case read_prompt L w of
        Inl e \<Rightarrow> (Inl e, w)
      | Inr prompt \<Rightarrow>
          if \<not> truthy prompt
          then refuse L ''[ERROR] Empty prompt in /code/prompt.json'' w
          else (case claude_cmd L w of
                  Inl e \<Rightarrow> (Inl e, w)
                | Inr cmd \<Rightarrow>
                    (case print L (''[INFO] Running: '' @ join '' '' cmd @ '' <prompt>'') w of
                       (Inl e, w1) \<Rightarrow> (Inl e, w1)
                     | (Inr u, w1) \<Rightarrow> subprocess_run L cmd prompt w1)))"

definition main_claude :: "'f lib \<Rightarrow> 'f world \<Rightarrow> (py_error + int) \<times> 'f world" where
  "main_claude L w =
     (case pin_home L ''/var/tmp/claude-home'' w of
        (Inl e, w1) \<Rightarrow> (Inl e, w1)
      | (Inr u, w1) \<Rightarrow>
          (case sync_claude_auth L w1 of
             (Inl e, w2) \<Rightarrow> (Inl e, w2)
           | (Inr u, w2) \<Rightarrow>
               (case claude_effort_level L w2 of
                  (Inl e, w3) \<Rightarrow> (Inl e, w3)
                | (Inr u, w3) \<Rightarrow> claude_invoke L w3)))"

subsection \<open>The codex adapter\<close>

text \<open>\<open>s.replace(c, r)\<close> for a single character \<open>c\<close>.\<close>

definition replace_char :: "char \<Rightarrow> string \<Rightarrow> string \<Rightarrow> string" where
  "replace_char c r s = concat (map (\<lambda>x. if x = c then r else [x]) s)"

definition add_codex_tuning_args :: "'f lib \<Rightarrow> 'f world \<Rightarrow> string list \<Rightarrow> string list" where
  "add_codex_tuning_args L w cmd =
     (let model = str_strip L (getenv (environ w) ''CODEX_MODEL'' []);
          cmd = (if model \<noteq> [] then cmd @ [''--model'', model] else cmd);
          reasoning_effort = str_strip L (getenv (environ w) ''CODEX_REASONING_EFFORT'' [])
      in if reasoning_effort \<noteq> [] then
           (let escaped = replace_char (CHR 0x22) [CHR 0x5C, CHR 0x22]
                            (replace_char (CHR 0x5C) [CHR 0x5C, CHR 0x5C] reasoning_effort)
            in cmd @ [''-c'', ''model_reasoning_effort='' @ [CHR 0x22] @ escaped @ [CHR 0x22]])
         else cmd)"

text \<open>
  The reduction of the events to the summary dictionary (the second half of
  \<open>run_codex_json_result\<close>). The generator of \<open>next(...)\<close> stops at the first match; the
  list comprehension and the loop visit every event.
\<close>

fun first_of_type :: "string \<Rightarrow> json list \<Rightarrow> py_error + json option" where
  "first_of_type t [] = Inr None"
| "first_of_type t (event # events) =
     (case py_get event ''type'' JNull of
        Inl e \<Rightarrow> Inl e
      | Inr v \<Rightarrow> if v = JStr t then Inr (Some event) else first_of_type t events)"

fun all_of_type :: "string \<Rightarrow> json list \<Rightarrow> py_error + json list" where
  "all_of_type t [] = Inr []"
| "all_of_type t (event # events) =
     (case py_get event ''type'' JNull of
        Inl e \<Rightarrow> Inl e
      | Inr v \<Rightarrow>
          (case all_of_type t events of
             Inl e \<Rightarrow> Inl e
           | Inr rest \<Rightarrow> Inr (if v = JStr t then event # rest else rest)))"

fun final_messages :: "json list \<Rightarrow> json list \<Rightarrow> py_error + json list" where
  "final_messages [] acc = Inr acc"
| "final_messages (event # events) acc =
     (case py_get event ''type'' JNull of
        Inl e \<Rightarrow> Inl e
      | Inr v \<Rightarrow>
          if v \<noteq> JStr ''item.completed'' then final_messages events acc
          else
            (case py_get event ''item'' (JObj []) of
               Inl e \<Rightarrow> Inl e
             | Inr item \<Rightarrow>
                 (case py_get item ''type'' JNull of
                    Inl e \<Rightarrow> Inl e
                  | Inr ty \<Rightarrow>
                      if ty = JStr ''agent_message'' then
                        (case py_get item ''text'' (JStr []) of
                           Inl e \<Rightarrow> Inl e
                         | Inr text \<Rightarrow>
                             final_messages events (if truthy text then acc @ [text] else acc))
                      else final_messages events acc)))"

definition reduce_events ::
  "json list \<Rightarrow> nat \<Rightarrow> int \<Rightarrow> py_error + (string \<times> json) list" where
  "reduce_events events non_json_lines returncode =
     (let summary =
            [(''type'', JStr ''result''),
             (''subtype'', JStr ''codex_exec''),
             (''is_error'', JBool (returncode \<noteq> 0)),
             (''returncode'', JInt returncode),
             (''event_count'', JInt (int (length events))),
             (''non_json_line_count'', JInt (int non_json_lines))]
      in case first_of_type ''thread.started'' events of
           Inl e \<Rightarrow> Inl e
         | Inr thread_started \<Rightarrow>
             (case (case thread_started of
                      None \<Rightarrow> Inr summary
                    | Some ev \<Rightarrow>
                        if \<not> truthy ev then Inr summary
                        else (case py_get ev ''thread_id'' JNull of
                                Inl e \<Rightarrow> Inl e
                              | Inr tid \<Rightarrow>
                                  Inr (if truthy tid then summary @ [(''thread_id'', tid)]
                                       else summary))) of
                Inl e \<Rightarrow> Inl e
              | Inr summary \<Rightarrow>
                  (case all_of_type ''turn.completed'' events of
                     Inl e \<Rightarrow> Inl e
                   | Inr turn_completed \<Rightarrow>
                       (case (if turn_completed \<noteq> [] then
                                (case py_get (last turn_completed) ''usage'' JNull of
                                   Inl e \<Rightarrow> Inl e
                                 | Inr usage \<Rightarrow>
                                     Inr (if usage \<noteq> JNull then summary @ [(''usage'', usage)]
                                          else summary))
                              else Inr summary) of
                          Inl e \<Rightarrow> Inl e
                        | Inr summary \<Rightarrow>
                            (case final_messages events [] of
                               Inl e \<Rightarrow> Inl e
                             | Inr msgs \<Rightarrow>
                                 Inr (if msgs \<noteq> []
                                      then summary @ [(''final_message'', last msgs)]
                                      else summary))))))"

text \<open>
  The loop over the lines of the subprocess: \<open>raw_line.rstrip("\\n")\<close>, \<open>json.loads\<close>;
  only a \<open>JSONDecodeError\<close> is caught.
\<close>

definition rstrip_newline :: "string \<Rightarrow> string" where
  "rstrip_newline s = rev (dropWhile (\<lambda>c. c = CHR 0x0A) (rev s))"

fun parse_lines ::
  "'f lib \<Rightarrow> string list \<Rightarrow> json list \<times> nat \<Rightarrow> py_error + json list \<times> nat" where
  "parse_lines L [] acc = Inr acc"
| "parse_lines L (raw_line # rest) (events, non_json_lines) =
     (let line = rstrip_newline raw_line
      in if line = [] then parse_lines L rest (events, non_json_lines)
         else (case json_loads L line of
                 Inr v \<Rightarrow> parse_lines L rest (events @ [v], non_json_lines)
               | Inl e \<Rightarrow>
                   if e = JSONDecodeError
                   then parse_lines L rest (events, Suc non_json_lines)
                   else Inl e))"

text \<open>
  \<open>run_codex_json_result(cmd)\<close>: start the process with its output captured, read and
  parse the lines, wait, reduce, print the summary, return the exit code. Reading
  lines that are not text raises \<open>UnicodeDecodeError\<close>, a \<open>ValueError\<close>.
\<close>

definition run_codex_json_result ::
  "'f lib \<Rightarrow> string list \<Rightarrow> json \<Rightarrow> 'f world \<Rightarrow> (py_error + int) \<times> 'f world" where
  "run_codex_json_result L cmd instruction w =
     (case instruction of
        JStr s \<Rightarrow>
          (case subprocess L (environ w) (files w) (cmd @ [s]) of
             Inl e \<Rightarrow> (Inl e, w)
           | Inr result \<Rightarrow>
               (let returncode = snd result;
                    w1 = w\<lparr>spawned := spawned w @ [(True, cmd @ [s], returncode)]\<rparr>
                in case fst result of
                     None \<Rightarrow> (Inl ValueError, w1)
                   | Some lines \<Rightarrow>
                       (case parse_lines L lines ([], 0) of
                          Inl e \<Rightarrow> (Inl e, w1)
                        | Inr parsed \<Rightarrow>
                            (case reduce_events (fst parsed) (snd parsed) returncode of
                               Inl e \<Rightarrow> (Inl e, w1)
                             | Inr summary \<Rightarrow>
                                 (case emit L (Json summary) w1 of
                                    (Inl e, w2) \<Rightarrow> (Inl e, w2)
                                  | (Inr u, w2) \<Rightarrow> (Inr returncode, w2))))))
      | _ \<Rightarrow> (Inl TypeError, w))"

definition codex_json_mode :: "'f lib \<Rightarrow> 'f world \<Rightarrow> string" where
  "codex_json_mode L w =
     (let json_mode = str_lower L (str_strip L (getenv (environ w) ''CODEX_JSON_MODE'' ''result''));
          json_mode = (if json_mode \<notin> {''result'', ''events'', ''off''} then ''result''
                       else json_mode)
      in if env_truthy L w ''CODEX_TRAJECTORY'' then ''events'' else json_mode)"

text \<open>
  The argument vector of \<open>codex\<close>, up to the prompt: the fixed flags, the tuning
  arguments, the extra arguments, and \<open>--json\<close>.
\<close>

definition codex_flags :: "'f lib \<Rightarrow> 'f world \<Rightarrow> string list" where
  "codex_flags L w =
     add_codex_tuning_args L w
       [''codex'', ''exec'', ''--skip-git-repo-check'',
        ''--dangerously-bypass-approvals-and-sandbox'', ''--ephemeral'']"

definition codex_cmd :: "'f lib \<Rightarrow> 'f world \<Rightarrow> py_error + string list" where
  "codex_cmd L w =
     (let cmd = codex_flags L w;
          extra_args = str_strip L (getenv (environ w) ''CODEX_EXEC_ARGS'' [])
      in case (if extra_args \<noteq> [] then
                 (case shlex_split L extra_args of
                    Inl e \<Rightarrow> Inl e
                  | Inr toks \<Rightarrow> Inr (cmd @ toks))
               else Inr cmd) of
           Inl e \<Rightarrow> Inl e
         | Inr cmd \<Rightarrow>
             Inr (if codex_json_mode L w \<noteq> ''off'' \<and> ''--json'' \<notin> set cmd
                  then cmd @ [''--json''] else cmd))"

definition codex_invoke :: "'f lib \<Rightarrow> 'f world \<Rightarrow> (py_error + int) \<times> 'f world" where
  "codex_invoke L w =
     (if \<not> which L (environ w) (files w) ''codex''
      then refuse L ''[ERROR] codex CLI not found in PATH'' w
      else case read_prompt L w of
        Inl e \<Rightarrow> (Inl e, w)
      | Inr prompt \<Rightarrow>
          if \<not> truthy prompt
          then refuse L ''[ERROR] Empty prompt in /code/prompt.json'' w
          else (case codex_cmd L w of
                  Inl e \<Rightarrow> (Inl e, w)
                | Inr cmd \<Rightarrow>
                    (case print L (''[INFO] Running: '' @ join '' '' cmd @ '' <prompt>'') w of
                       (Inl e, w1) \<Rightarrow> (Inl e, w1)
                     | (Inr u, w1) \<Rightarrow>
                         if codex_json_mode L w = ''result''
                         then run_codex_json_result L cmd prompt w1
                         else subprocess_run L cmd prompt w1)))"

definition main_codex :: "'f lib \<Rightarrow> 'f world \<Rightarrow> (py_error + int) \<times> 'f world" where
  "main_codex L w =
     (case pin_home L ''/var/tmp/codex-home'' w of
        (Inl e, w1) \<Rightarrow> (Inl e, w1)
      | (Inr u, w1) \<Rightarrow>
          (case sync_codex_auth L w1 of
             (Inl e, w2) \<Rightarrow> (Inl e, w2)
           | (Inr u, w2) \<Rightarrow> codex_invoke L w2))"

section \<open>Specification-side notions\<close>

text \<open>
  The summary in the words of the specification. An event is an object; \<open>field e k\<close> is
  its member \<open>k\<close>, when it has one. The thread identifier is that of the first
  \<open>thread.started\<close> event, when it is non-empty (true, for Python); the usage is that of
  the last \<open>turn.completed\<close> event, when it is there and not null; the final message is the
  text of the last \<open>item.completed\<close> event whose item is an \<open>agent_message\<close> with a
  non-empty (true) text.
\<close>

definition field :: "json \<Rightarrow> string \<Rightarrow> json option" where
  "field e k = (case e of JObj kvs \<Rightarrow> map_of kvs k | _ \<Rightarrow> None)"

definition is_obj :: "json \<Rightarrow> bool" where
  "is_obj e = (case e of JObj kvs \<Rightarrow> True | _ \<Rightarrow> False)"

definition has_type :: "string \<Rightarrow> json \<Rightarrow> bool" where
  "has_type t e = (field e ''type'' = Some (JStr t))"

definition agent_text :: "json \<Rightarrow> json option" where
  "agent_text e =
     (if has_type ''item.completed'' e then
        (case field e ''item'' of
           None \<Rightarrow> None
         | Some item \<Rightarrow>
             if has_type ''agent_message'' item then
               (case field item ''text'' of
                  None \<Rightarrow> None
                | Some t \<Rightarrow> if truthy t then Some t else None)
             else None)
      else None)"

definition thread_id_of :: "json list \<Rightarrow> json option" where
  "thread_id_of events =
     (case find (has_type ''thread.started'') events of
        None \<Rightarrow> None
      | Some e \<Rightarrow>
          (case field e ''thread_id'' of
             None \<Rightarrow> None
           | Some v \<Rightarrow> if truthy v then Some v else None))"

definition usage_of :: "json list \<Rightarrow> json option" where
  "usage_of events =
     (case find (has_type ''turn.completed'') (rev events) of
        None \<Rightarrow> None
      | Some e \<Rightarrow>
          (case field e ''usage'' of
             None \<Rightarrow> None
           | Some v \<Rightarrow> if v \<noteq> JNull then Some v else None))"

definition final_message_of :: "json list \<Rightarrow> json option" where
  "final_message_of events =
     (case find (\<lambda>e. agent_text e \<noteq> None) (rev events) of
        None \<Rightarrow> None
      | Some e \<Rightarrow> agent_text e)"

definition optional :: "string \<Rightarrow> json option \<Rightarrow> (string \<times> json) list" where
  "optional k v = (case v of None \<Rightarrow> [] | Some x \<Rightarrow> [(k, x)])"

definition summary_of :: "json list \<Rightarrow> nat \<Rightarrow> int \<Rightarrow> (string \<times> json) list" where
  "summary_of events non_json_lines returncode =
     [(''type'', JStr ''result''),
      (''subtype'', JStr ''codex_exec''),
      (''is_error'', JBool (returncode \<noteq> 0)),
      (''returncode'', JInt returncode),
      (''event_count'', JInt (int (length events))),
      (''non_json_line_count'', JInt (int non_json_lines))]
     @ optional ''thread_id'' (thread_id_of events)
     @ optional ''usage'' (usage_of events)
     @ optional ''final_message'' (final_message_of events)"

text \<open>
  The events the reduction accepts: every event is an object, and the \<open>item\<close> of an
  \<open>item.completed\<close> event, when there is one, is an object too. On any other sequence a
  \<open>.get\<close> meets a value that is not a dictionary.
\<close>

definition well_formed :: "json list \<Rightarrow> bool" where
  "well_formed events =
     (\<forall>e \<in> set events.
        is_obj e \<and>
        (has_type ''item.completed'' e \<longrightarrow>
           (case field e ''item'' of None \<Rightarrow> True | Some item \<Rightarrow> is_obj item)))"

text \<open>
  What a run adds to the output: \<open>prints P w w'\<close> says that \<open>w'\<close> has printed what \<open>w\<close> had
  and then only items that satisfy \<open>P\<close>. Informational and error lines, warnings and the
  summary are told apart by these tests.
\<close>

definition prints :: "(out \<Rightarrow> bool) \<Rightarrow> 'f world \<Rightarrow> 'f world \<Rightarrow> bool" where
  "prints P w w' = (\<exists>new. printed w' = printed w @ new \<and> (\<forall>x \<in> set new. P x))"

definition is_info :: "out \<Rightarrow> bool" where
  "is_info x = (case x of Line s \<Rightarrow> take 6 s = ''[INFO]'' | Json d \<Rightarrow> False)"

definition is_plain :: "out \<Rightarrow> bool" where
  "is_plain x =
     (case x of Line s \<Rightarrow> take 6 s = ''[INFO]'' \<or> take 7 s = ''[ERROR]'' | Json d \<Rightarrow> False)"

definition is_warning :: "out \<Rightarrow> bool" where
  "is_warning x = (case x of Line s \<Rightarrow> take 9 s = ''[WARNING]'' | Json d \<Rightarrow> False)"

text \<open>
  The tokens of the extra arguments variable \<open>name\<close>: those \<open>shlex.split\<close> gives for its
  trimmed value, none when that is empty.
\<close>

definition extra_tokens :: "'f lib \<Rightarrow> 'f world \<Rightarrow> string \<Rightarrow> py_error + string list" where
  "extra_tokens L w name =
     (let extra_args = str_strip L (getenv (environ w) name [])
      in if extra_args \<noteq> [] then shlex_split L extra_args else Inr [])"

section \<open>A test instance of the library\<close>

text \<open>
  To run the definitions on concrete inputs, a small operating system and library. None
  of the general properties below depends on it: they hold for every library. It is
  used at inputs on which it can be compared with the real one.
\<close>

subsection \<open>Strings\<close>

text \<open>
  \<open>strip\<close> and \<open>lower\<close> for ASCII text: the instances hold no other characters, and
  there the two functions are \<open>str.strip\<close> and \<open>str.lower\<close>.
\<close>

definition ascii_space :: "char \<Rightarrow> bool" where
  "ascii_space c = (of_char c \<in> {9, 10, 11, 12, 13, 28, 29, 30, 31, 32 :: nat})"

definition ascii_strip :: "string \<Rightarrow> string" where
  "ascii_strip s = rev (dropWhile ascii_space (rev (dropWhile ascii_space s)))"

definition ascii_lower_char :: "char \<Rightarrow> char" where
  "ascii_lower_char c =
     (if 65 \<le> (of_char c :: nat) \<and> (of_char c :: nat) \<le> 90
      then char_of (of_char c + 32 :: nat) else c)"

definition ascii_lower :: "string \<Rightarrow> string" where
  "ascii_lower s = map ascii_lower_char s"

text \<open>\<open>s.split(sep)\<close> for a single character \<open>sep\<close>.\<close>

fun split_char :: "char \<Rightarrow> string \<Rightarrow> string list" where
  "split_char sep [] = [[]]"
| "split_char sep (c # cs) =
     (if c = sep then [] # split_char sep cs
      else (case split_char sep cs of [] \<Rightarrow> [[c]] | x # xs \<Rightarrow> (c # x) # xs))"

subsection \<open>A file system\<close>

text \<open>
  A file system after POSIX: a current directory and the entries, each under the
  sequence of names that leads to it from the root through directories only. An entry
  is a regular file with its content, a directory, or a symbolic link with its target as
  it was given. The root is a directory.
\<close>

datatype node = File string | Dir | Link string

record posix =
  cwd :: "string list"
  entries :: "(string list \<times> node) list"

definition lookup :: "(string list \<times> node) list \<Rightarrow> string list \<Rightarrow> node option" where
  "lookup es p = (if p = [] then Some Dir else map_of es p)"

text \<open>
  The components of a path name; a trailing slash stands for a last component \<open>.\<close>, so
  that the name before it has to lead to a directory.
\<close>

definition components :: "string \<Rightarrow> string list" where
  "components s =
     (let cs = filter (\<lambda>c. c \<noteq> []) (split_char (CHR ''/'') s)
      in if cs \<noteq> [] \<and> last s = CHR ''/'' then cs @ [''.''] else cs)"

text \<open>
  Path resolution: from the directory \<open>d\<close>, walk the components. \<open>..\<close> is the parent
  (the root is its own parent); a symbolic link met on the way is replaced by the
  components of its target, from the root for an absolute target and from the directory
  of the link for a relative one, at most \<open>n\<close> times (then \<open>ELOOP\<close>, an \<open>OSError\<close>); the
  last component, when it is a link, is followed only if \<open>fol\<close>. The result is where the
  walk ends and the entry there, \<open>None\<close> when only the last component is missing.
\<close>

fun walk ::
  "nat \<Rightarrow> (string list \<times> node) list \<Rightarrow> bool \<Rightarrow> string list \<Rightarrow> string list
     \<Rightarrow> py_error + string list \<times> node option" where
  "walk n es fol d [] = Inr (d, Some Dir)"
| "walk n es fol d (c # cs) =
     (if c = ''.'' then walk n es fol d cs
      else if c = ''..'' then walk n es fol (butlast d) cs
      else
        (case lookup es (d @ [c]) of
           None \<Rightarrow> if cs = [] then Inr (d @ [c], None) else Inl FileNotFoundError
         | Some x \<Rightarrow>
             (case x of
                File t \<Rightarrow> if cs = [] then Inr (d @ [c], Some x) else Inl NotADirectoryError
              | Dir \<Rightarrow> walk n es fol (d @ [c]) cs
              | Link t \<Rightarrow>
                  if cs = [] \<and> \<not> fol then Inr (d @ [c], Some x)
                  else
                    (case n of
                       0 \<Rightarrow> Inl OSError
                     | Suc m \<Rightarrow>
                         if t = [] then Inl FileNotFoundError
                         else walk m es fol (if hd t = CHR ''/'' then [] else d)
                                (components t @ cs)))))"

definition resolve :: "posix \<Rightarrow> bool \<Rightarrow> string \<Rightarrow> py_error + string list \<times> node option" where
  "resolve fs fol s =
     (if s = [] then Inl FileNotFoundError
      else walk 40 (entries fs) fol (if hd s = CHR ''/'' then [] else cwd fs) (components s))"

text \<open>\<open>os.path.isfile\<close>, \<open>isdir\<close>, \<open>exists\<close> follow a last link; \<open>lexists\<close> does not.\<close>

definition p_isfile :: "posix \<Rightarrow> string \<Rightarrow> bool" where
  "p_isfile fs s = (case resolve fs True s of Inr (p, Some (File c)) \<Rightarrow> True | _ \<Rightarrow> False)"

definition p_isdir :: "posix \<Rightarrow> string \<Rightarrow> bool" where
  "p_isdir fs s = (case resolve fs True s of Inr (p, Some Dir) \<Rightarrow> True | _ \<Rightarrow> False)"

definition p_exists :: "posix \<Rightarrow> string \<Rightarrow> bool" where
  "p_exists fs s = (case resolve fs True s of Inr (p, Some x) \<Rightarrow> True | _ \<Rightarrow> False)"

definition p_lexists :: "posix \<Rightarrow> string \<Rightarrow> bool" where
  "p_lexists fs s = (case resolve fs False s of Inr (p, Some x) \<Rightarrow> True | _ \<Rightarrow> False)"

text \<open>Opening a file and reading all of it.\<close>

definition p_read :: "posix \<Rightarrow> string \<Rightarrow> py_error + string" where
  "p_read fs s =
     (case resolve fs True s of
        Inl e \<Rightarrow> Inl e
      | Inr (p, None) \<Rightarrow> Inl FileNotFoundError
      | Inr (p, Some x) \<Rightarrow>
          (case x of File c \<Rightarrow> Inr c | Dir \<Rightarrow> Inl IsADirectoryError | Link t \<Rightarrow> Inl OSError))"

text \<open>
  \<open>os.mkdir\<close>, \<open>os.remove\<close> and \<open>os.symlink\<close> do not follow a last link. \<open>mkdir\<close>
  accepts trailing slashes; removing a directory is \<open>IsADirectoryError\<close> (as on Linux).
\<close>

definition p_mkdir :: "posix \<Rightarrow> string \<Rightarrow> (py_error + unit) \<times> posix" where
  "p_mkdir fs s =
     (case resolve fs False (if rstrip_char (CHR ''/'') s = [] then s
                             else rstrip_char (CHR ''/'') s) of
        Inl e \<Rightarrow> (Inl e, fs)
      | Inr (p, Some x) \<Rightarrow> (Inl FileExistsError, fs)
      | Inr (p, None) \<Rightarrow> (Inr (), fs\<lparr>entries := entries fs @ [(p, Dir)]\<rparr>))"

definition p_remove :: "posix \<Rightarrow> string \<Rightarrow> (py_error + unit) \<times> posix" where
  "p_remove fs s =
     (case resolve fs False s of
        Inl e \<Rightarrow> (Inl e, fs)
      | Inr (p, None) \<Rightarrow> (Inl FileNotFoundError, fs)
      | Inr (p, Some x) \<Rightarrow>
          if x = Dir then (Inl IsADirectoryError, fs)
          else (Inr (), fs\<lparr>entries := filter (\<lambda>e. fst e \<noteq> p) (entries fs)\<rparr>))"

definition p_symlink :: "posix \<Rightarrow> string \<Rightarrow> string \<Rightarrow> (py_error + unit) \<times> posix" where
  "p_symlink fs target s =
     (if target = [] then (Inl FileNotFoundError, fs)
      else case resolve fs False s of
        Inl e \<Rightarrow> (Inl e, fs)
      | Inr (p, Some x) \<Rightarrow> (Inl FileExistsError, fs)
      | Inr (p, None) \<Rightarrow> (Inr (), fs\<lparr>entries := entries fs @ [(p, Link target)]\<rparr>))"

text \<open>
  \<open>os.makedirs(name, exist_ok=True)\<close>, as in CPython: split off the last component
  (twice if the name ends with a slash); if the head is not there, make it first, a
  \<open>FileExistsError\<close> of that being ignored; then \<open>mkdir\<close>, whose error is ignored when the
  name is a directory.
\<close>

definition makedirs_head :: "string \<Rightarrow> string" where
  "makedirs_head name =
     (if snd (os_path_split name) = [] then fst (os_path_split (fst (os_path_split name)))
      else fst (os_path_split name))"

definition makedirs_tail :: "string \<Rightarrow> string" where
  "makedirs_tail name =
     (if snd (os_path_split name) = [] then snd (os_path_split (fst (os_path_split name)))
      else snd (os_path_split name))"

definition mkdir_exist_ok :: "posix \<Rightarrow> string \<Rightarrow> (py_error + unit) \<times> posix" where
  "mkdir_exist_ok fs name =
     (case p_mkdir fs name of
        (Inl e, fs1) \<Rightarrow> if p_isdir fs1 name then (Inr (), fs1) else (Inl e, fs1)
      | (Inr u, fs1) \<Rightarrow> (Inr (), fs1))"

function p_makedirs :: "posix \<Rightarrow> string \<Rightarrow> (py_error + unit) \<times> posix" where
  "p_makedirs fs name =
     (if makedirs_head name \<noteq> [] \<and> makedirs_tail name \<noteq> []
           \<and> \<not> p_exists fs (makedirs_head name)
      then
        (case p_makedirs fs (makedirs_head name) of
           (Inl e, fs1) \<Rightarrow>
             if e = FileExistsError
             then (if makedirs_tail name = ''.'' then (Inr (), fs1) else mkdir_exist_ok fs1 name)
             else (Inl e, fs1)
         | (Inr u, fs1) \<Rightarrow>
             if makedirs_tail name = ''.'' then (Inr (), fs1) else mkdir_exist_ok fs1 name)
      else mkdir_exist_ok fs name)"
  by pat_completeness auto

termination
proof (relation "measure (\<lambda>(fs, name). length name)")
  show "wf (measure (\<lambda>(fs, name). length name))" by simp
next
  fix fs :: posix and name :: string
  assume a: "makedirs_head name \<noteq> [] \<and> makedirs_tail name \<noteq> []
               \<and> \<not> p_exists fs (makedirs_head name)"
  have le: "length (fst (os_path_split p)) \<le> length p" for p
    by (simp add: os_path_split_def Let_def rstrip_char_def
          order_trans[OF length_dropWhile_le])
  have lt: "length (fst (os_path_split p)) < length p" if "snd (os_path_split p) \<noteq> []" for p
  proof -
    from that have "length p - length (takeWhile (\<lambda>c. c \<noteq> CHR ''/'') (rev p)) < length p"
      by (simp add: os_path_split_def Let_def)
    moreover have "length (fst (os_path_split p))
        \<le> length p - length (takeWhile (\<lambda>c. c \<noteq> CHR ''/'') (rev p))"
      by (simp add: os_path_split_def Let_def rstrip_char_def
            order_trans[OF length_dropWhile_le])
    ultimately show ?thesis by simp
  qed
  have "length (makedirs_head name) < length name"
  proof (cases "snd (os_path_split name) = []")
    case True
    with a have "snd (os_path_split (fst (os_path_split name))) \<noteq> []"
      by (simp add: makedirs_tail_def)
    from lt[OF this] le[of name] True show ?thesis by (simp add: makedirs_head_def)
  next
    case False
    from lt[OF False] False show ?thesis by (simp add: makedirs_head_def)
  qed
  then show "((fs, makedirs_head name), (fs, name)) \<in> measure (\<lambda>(fs, name). length name)"
    by simp
qed

declare p_makedirs.simps [simp del]

subsection \<open>The library\<close>

text \<open>
  The rest of the test library: names without \<open>~\<close> and \<open>$\<close> (expansion changes
  nothing), extra arguments without quotes and backslashes (a lone double quote makes
  \<open>shlex.split\<close> raise), a few JSON documents, both programs on the search path, a
  subprocess that prints four events and a line that is not JSON and ends with exit code
  \<open>3\<close>, and a standard output that takes everything.
\<close>

definition quoted :: "string \<Rightarrow> string" where
  "quoted s = CHR 0x22 # s @ [CHR 0x22]"

definition usage1 :: json where
  "usage1 = JObj [(''input_tokens'', JInt 10)]"

definition usage2 :: json where
  "usage2 = JObj [(''input_tokens'', JInt 25)]"

definition sample_events :: "json list" where
  "sample_events =
     [JObj [(''type'', JStr ''thread.started''), (''thread_id'', JStr ''t1'')],
      JObj [(''type'', JStr ''turn.completed''), (''usage'', usage1)],
      JObj [(''type'', JStr ''item.completed''),
            (''item'', JObj [(''type'', JStr ''agent_message''), (''text'', JStr ''done'')])],
      JObj [(''type'', JStr ''turn.completed''), (''usage'', usage2)]]"

definition sample_docs :: "(string \<times> json) list" where
  "sample_docs =
     [(''{}'', JObj []),
      (''{'' @ quoted ''prompt'' @ '': '' @ quoted ''hello'' @ ''}'',
         JObj [(''prompt'', JStr ''hello'')]),
      (''E0'', sample_events ! 0), (''E1'', sample_events ! 1),
      (''E2'', sample_events ! 2), (''E3'', sample_events ! 3)]"

definition lib0 :: "posix lib" where
  "lib0 =
     \<lparr>str_strip = ascii_strip,
      str_lower = ascii_lower,
      expanduser = (\<lambda>e p. p),
      expandvars = (\<lambda>e p. p),
      shlex_split = (\<lambda>s. if CHR 0x22 \<in> set s then Inl ValueError
                          else Inr (filter (\<lambda>x. x \<noteq> []) (split_char (CHR '' '') s))),
      json_loads = (\<lambda>s. case map_of sample_docs s of
                           None \<Rightarrow> Inl JSONDecodeError | Some v \<Rightarrow> Inr v),
      which = (\<lambda>e f name. name \<in> {''claude'', ''codex''}),
      os_isfile = p_isfile,
      os_lexists = p_lexists,
      os_makedirs = p_makedirs,
      os_remove = p_remove,
      os_symlink = p_symlink,
      read_text = p_read,
      subprocess = (\<lambda>e f argv. Inr (Some [''E0'', ''E1'', ''not json'', ''E2'', ''E3''], 3)),
      stdout_write = (\<lambda>before x. None)\<rparr>"

text \<open>The same library with neither program on the search path.\<close>

definition lib_absent :: "posix lib" where
  "lib_absent = lib0\<lparr>which := (\<lambda>e f name. False)\<rparr>"

definition world_env :: "(string \<times> string) list \<Rightarrow> posix \<Rightarrow> posix world" where
  "world_env kvs f = \<lparr>environ = map_of kvs, files = f, printed = [], spawned = []\<rparr>"

text \<open>The prompt file \<open>{"prompt": "hello"}\<close> in \<open>/code\<close>, and the prompt file \<open>{}\<close>.\<close>

definition fs_prompt :: posix where
  "fs_prompt =
     \<lparr>cwd = [],
      entries = [([''code''], Dir),
                 ([''code'', ''prompt.json''],
                    File (''{'' @ quoted ''prompt'' @ '': '' @ quoted ''hello'' @ ''}''))]\<rparr>"

definition fs_no_prompt :: posix where
  "fs_no_prompt =
     \<lparr>cwd = [], entries = [([''code''], Dir), ([''code'', ''prompt.json''], File ''{}'')]\<rparr>"

text \<open>
  Sample file systems: a home directory \<open>/h\<close> and a credential \<open>/s\<close>, with the destination
  \<open>/h/a\<close> a dangling link, a directory, or a mounted file; and a working directory \<open>/w\<close>
  that holds the credential \<open>key\<close>.
\<close>

definition fs_dangling :: posix where
  "fs_dangling =
     \<lparr>cwd = [],
      entries = [([''h''], Dir), ([''s''], File ''key''), ([''h'', ''a''], Link ''/gone'')]\<rparr>"




section \<open>Properties\<close>

subsection \<open>Resolution\<close>


subsection \<open>Materialisation\<close>













text \<open>
  C10. When the expanded source name does not lead to a regular file, \<open>symlink_file\<close>
  returns \<open>False\<close> and the world is exactly as it was: no operation that changes the file
  system is called, so whatever is at the destination, a dangling link included, stays.
\<close>

theorem symlink_file_source_missing:
  "\<not> os_isfile L (files w) (expand_path L w source_file) \<Longrightarrow>
     symlink_file L w source_file dest_file = (Inr False, w)"
  by (simp add: symlink_file_def Let_def)

theorem symlink_file_source_missing_witness:
  "symlink_file lib0 (world_env [] fs_dangling) ''/nope'' ''/h/a''
     = (Inr False, world_env [] fs_dangling)
   \<and> os_lexists lib0 (files (world_env [] fs_dangling)) ''/h/a''
   \<and> \<not> os_isfile lib0 (files (world_env [] fs_dangling)) ''/h/a''"
proof -
  let ?D = "world_env [] fs_dangling"
  have h: "\<not> os_isfile lib0 (files ?D) (expand_path lib0 ?D ''/nope'')" by code_simp
  have l: "os_lexists lib0 (files ?D) ''/h/a''" by code_simp
  have n: "\<not> os_isfile lib0 (files ?D) ''/h/a''" by code_simp
  from symlink_file_source_missing [OF h, of "''/h/a''"] l n show ?thesis by (intro conjI)
qed

subsection \<open>The reduction of the events\<close>

text \<open>
  On well-formed events the three passes over the list are \<open>find\<close>, \<open>filter\<close> and a
  filtering map, and the dictionary built is the summary of the specification; on any
  other list a \<open>.get\<close> raises \<open>AttributeError\<close>.
\<close>

lemma py_get_obj:
  "is_obj e \<Longrightarrow> py_get e k d = Inr (case field e k of None \<Rightarrow> d | Some v \<Rightarrow> v)"
  by (cases e) (auto simp: py_get_def field_def is_obj_def split: option.splits)

lemma py_get_not_obj: "\<not> is_obj e \<Longrightarrow> py_get e k d = Inl AttributeError"
  by (cases e) (auto simp: py_get_def is_obj_def)

lemma type_test:
  "is_obj e \<Longrightarrow> ((case field e ''type'' of None \<Rightarrow> JNull | Some v \<Rightarrow> v) = JStr t) = has_type t e"
  by (auto simp: has_type_def split: option.splits)

lemma first_of_type_find:
  "\<forall>e \<in> set events. is_obj e \<Longrightarrow> first_of_type t events = Inr (find (has_type t) events)"
  by (induction events) (simp_all add: py_get_obj type_test)

lemma all_of_type_filter:
  "\<forall>e \<in> set events. is_obj e \<Longrightarrow> all_of_type t events = Inr (filter (has_type t) events)"
  by (induction events) (simp_all add: py_get_obj type_test)

lemma all_of_type_error:
  "\<not> (\<forall>e \<in> set events. is_obj e) \<Longrightarrow> all_of_type t events = Inl AttributeError"
proof (induction events)
  case Nil
  then show ?case by simp
next
  case (Cons e es)
  show ?case
  proof (cases "is_obj e")
    case True
    with Cons show ?thesis by (simp add: py_get_obj)
  next
    case False
    then show ?thesis by (simp add: py_get_not_obj)
  qed
qed

lemma first_of_type_error:
  "first_of_type t events = Inl e \<Longrightarrow> e = AttributeError"
  by (induction events) (auto simp: py_get_def split: json.splits option.splits if_splits)

lemma final_messages_step:
  assumes "is_obj e"
    and "has_type ''item.completed'' e \<longrightarrow>
           (case field e ''item'' of None \<Rightarrow> True | Some item \<Rightarrow> is_obj item)"
  shows "final_messages (e # es) acc
           = final_messages es (case agent_text e of None \<Rightarrow> acc | Some t \<Rightarrow> acc @ [t])"
proof (cases "has_type ''item.completed'' e")
  case False
  with assms(1) show ?thesis
    by (simp add: py_get_obj type_test agent_text_def)
next
  case True
  define item where "item = (case field e ''item'' of None \<Rightarrow> JObj [] | Some v \<Rightarrow> v)"
  have io: "is_obj item" using assms(2) True
    by (auto simp: item_def is_obj_def split: option.splits)
  have at: "agent_text e =
      (if has_type ''agent_message'' item then
         (case field item ''text'' of None \<Rightarrow> None | Some t \<Rightarrow> if truthy t then Some t else None)
       else None)"
    using True
    by (auto simp: agent_text_def item_def has_type_def field_def split: option.splits)
  show ?thesis
    using True assms(1) io
    by (simp add: py_get_obj type_test item_def[symmetric] at split: option.splits)
qed

lemma final_messages_spec:
  "well_formed events \<Longrightarrow>
     final_messages events acc = Inr (acc @ List.map_filter agent_text events)"
proof (induction events arbitrary: acc)
  case Nil
  then show ?case by (simp add: List.map_filter_simps)
next
  case (Cons e es)
  from Cons.prems have wf: "well_formed es" and e: "is_obj e"
    and it: "has_type ''item.completed'' e \<longrightarrow>
           (case field e ''item'' of None \<Rightarrow> True | Some item \<Rightarrow> is_obj item)"
    by (auto simp: well_formed_def)
  show ?case
    by (subst final_messages_step[OF e it])
       (simp add: Cons.IH[OF wf] List.map_filter_simps split: option.splits)
qed

lemma final_messages_error:
  "final_messages events acc = Inl e \<Longrightarrow> e = AttributeError"
proof (induction events acc rule: final_messages.induct)
  case (1 acc)
  then show ?case by simp
next
  case (2 event events acc)
  then show ?case
    by (auto simp: py_get_def split: json.splits option.splits if_splits sum.splits)
qed

lemma final_messages_not_wf:
  "\<forall>e \<in> set events. is_obj e \<Longrightarrow> \<not> well_formed events \<Longrightarrow>
     final_messages events acc = Inl AttributeError"
proof (induction events arbitrary: acc)
  case Nil
  then show ?case by (simp add: well_formed_def)
next
  case (Cons e es)
  from Cons.prems(1) have e: "is_obj e" and es: "\<forall>e \<in> set es. is_obj e" by auto
  show ?case
  proof (cases "has_type ''item.completed'' e \<longrightarrow>
           (case field e ''item'' of None \<Rightarrow> True | Some item \<Rightarrow> is_obj item)")
    case True
    with Cons.prems(2) e have "\<not> well_formed es" by (auto simp: well_formed_def)
    with Cons.IH[OF es] have "final_messages es acc' = Inl AttributeError" for acc' by blast
    then show ?thesis by (subst final_messages_step[OF e True]) simp
  next
    case False
    then obtain item where "has_type ''item.completed'' e" "field e ''item'' = Some item"
      "\<not> is_obj item"
      by (auto split: option.splits)
    with e show ?thesis by (simp add: py_get_obj type_test py_get_not_obj)
  qed
qed

lemma find_rev_filter:
  "find P (rev xs) = (if filter P xs = [] then None else Some (last (filter P xs)))"
  by (induction xs rule: rev_induct) auto

lemma map_filter_last:
  assumes "List.map_filter f xs \<noteq> []"
  shows "find (\<lambda>x. f x \<noteq> None) (rev xs) \<noteq> None
     \<and> f (the (find (\<lambda>x. f x \<noteq> None) (rev xs))) = Some (last (List.map_filter f xs))"
proof -
  let ?ys = "filter (\<lambda>x. f x \<noteq> None) xs"
  from assms have ne: "?ys \<noteq> []" by (simp add: List.map_filter_def)
  then have fnd: "find (\<lambda>x. f x \<noteq> None) (rev xs) = Some (last ?ys)"
    by (simp add: find_rev_filter)
  from ne have "last ?ys \<in> set ?ys" by (rule last_in_set)
  then obtain v where v: "f (last ?ys) = Some v" by auto
  from ne have "last (List.map_filter f xs) = the (f (last ?ys))"
    by (simp add: List.map_filter_def last_map)
  with v fnd show ?thesis by simp
qed

lemma map_filter_empty:
  "List.map_filter f xs = [] \<Longrightarrow> find (\<lambda>x. f x \<noteq> None) (rev xs) = None"
  by (simp add: List.map_filter_def find_rev_filter)

lemma final_message_of_eq:
  "final_message_of events =
     (if List.map_filter agent_text events = [] then None
      else Some (last (List.map_filter agent_text events)))"
proof (cases "List.map_filter agent_text events = []")
  case True
  from map_filter_empty[OF True] True show ?thesis by (simp add: final_message_of_def)
next
  case False
  from map_filter_last[OF False] show ?thesis
    using False by (auto simp: final_message_of_def split: option.splits)
qed

lemma has_type_truthy: "has_type t e \<Longrightarrow> truthy e"
  by (cases e) (auto simp: has_type_def field_def)

lemma reduce_events_summary:
  assumes "well_formed events"
  shows "reduce_events events n rc = Inr (summary_of events n rc)"
proof -
  from assms have obj: "\<forall>e \<in> set events. is_obj e" by (auto simp: well_formed_def)
  have thread:
    "(case find (has_type ''thread.started'') events of
        None \<Rightarrow> Inr s
      | Some ev \<Rightarrow>
          if \<not> truthy ev then Inr s
          else (case py_get ev ''thread_id'' JNull of
                  Inl e \<Rightarrow> Inl e
                | Inr tid \<Rightarrow> Inr (if truthy tid then s @ [(''thread_id'', tid)] else s)))
     = (Inr (s @ optional ''thread_id'' (thread_id_of events)) :: py_error + (string \<times> json) list)"
    for s
  proof (cases "find (has_type ''thread.started'') events")
    case None
    then show ?thesis by (simp add: thread_id_of_def optional_def)
  next
    case (Some ev)
    then have "has_type ''thread.started'' ev" and "ev \<in> set events"
      by (auto simp: find_Some_iff)
    with obj have "is_obj ev" and "truthy ev" by (auto intro: has_type_truthy)
    with Some show ?thesis
      by (simp add: py_get_obj thread_id_of_def optional_def split: option.splits)
  qed
  let ?tc = "filter (has_type ''turn.completed'') events"
  have usage:
    "(if ?tc \<noteq> [] then
        (case py_get (last ?tc) ''usage'' JNull of
           Inl e \<Rightarrow> Inl e
         | Inr usage \<Rightarrow> Inr (if usage \<noteq> JNull then s @ [(''usage'', usage)] else s))
      else Inr s)
     = (Inr (s @ optional ''usage'' (usage_of events)) :: py_error + (string \<times> json) list)"
    for s
  proof (cases "?tc = []")
    case True
    then show ?thesis by (simp add: usage_of_def find_rev_filter optional_def)
  next
    case False
    then have "last ?tc \<in> set ?tc" by (rule last_in_set)
    with obj have "is_obj (last ?tc)" by auto
    with False show ?thesis
      by (simp add: py_get_obj usage_of_def find_rev_filter optional_def split: option.splits)
  qed
  have final:
    "(if List.map_filter agent_text events \<noteq> []
      then s @ [(''final_message'', last (List.map_filter agent_text events))] else s)
     = s @ optional ''final_message'' (final_message_of events)" for s
    by (simp add: final_message_of_eq optional_def)
  show ?thesis
    unfolding reduce_events_def Let_def summary_of_def
    by (simp only: first_of_type_find[OF obj] all_of_type_filter[OF obj]
          final_messages_spec[OF assms] sum.case thread usage final append_Nil append_assoc)
qed

lemma reduce_events_not_wf:
  assumes "\<not> well_formed events"
  shows "reduce_events events n rc = Inl AttributeError"
proof (cases "\<forall>e \<in> set events. is_obj e")
  case False
  then have a: "all_of_type ''turn.completed'' events = Inl AttributeError"
    by (rule all_of_type_error)
  show ?thesis
    unfolding reduce_events_def Let_def
    by (auto simp: a py_get_def split: sum.splits option.splits json.splits
          dest: first_of_type_error)
next
  case True
  from True assms have f: "final_messages events [] = Inl AttributeError"
    by (rule final_messages_not_wf)
  show ?thesis
    unfolding reduce_events_def Let_def
    by (auto simp: f py_get_def all_of_type_filter[OF True]
          split: sum.splits option.splits json.splits dest: first_of_type_error)
qed

lemma summary_of_lookup:
  "map_of (summary_of events n rc) ''thread_id'' = thread_id_of events"
  "map_of (summary_of events n rc) ''usage'' = usage_of events"
  "map_of (summary_of events n rc) ''final_message'' = final_message_of events"
  by (simp_all add: summary_of_def optional_def split: option.splits)

lemma summary_of_keys:
  "map fst (take 6 (summary_of events n rc))
     = [''type'', ''subtype'', ''is_error'', ''returncode'', ''event_count'',
        ''non_json_line_count'']"
  "set (map fst (drop 6 (summary_of events n rc)))
     \<subseteq> {''thread_id'', ''usage'', ''final_message''}"
  by (auto simp: summary_of_def optional_def split: option.splits)

lemma summary_of_present:
  "(''thread_id'' \<in> fst ` set (summary_of events n rc)) = (thread_id_of events \<noteq> None)"
  "(''usage'' \<in> fst ` set (summary_of events n rc)) = (usage_of events \<noteq> None)"
  "(''final_message'' \<in> fst ` set (summary_of events n rc)) = (final_message_of events \<noteq> None)"
  by (cases "thread_id_of events"; cases "usage_of events"; cases "final_message_of events";
      simp add: summary_of_def optional_def)+

lemma find_Some_set: "find P xs = Some x \<Longrightarrow> x \<in> set xs \<and> P x"
  by (induction xs) (auto split: if_splits)

lemma thread_id_of_source:
  "thread_id_of events \<noteq> None \<Longrightarrow>
     \<exists>e \<in> set events. has_type ''thread.started'' e
        \<and> (\<exists>v. field e ''thread_id'' = Some v \<and> truthy v)"
  by (auto simp: thread_id_of_def split: option.splits if_splits dest!: find_Some_set)

lemma usage_of_source:
  "usage_of events \<noteq> None \<Longrightarrow>
     \<exists>e \<in> set events. has_type ''turn.completed'' e
        \<and> (\<exists>v. field e ''usage'' = Some v \<and> v \<noteq> JNull)"
proof -
  assume a: "usage_of events \<noteq> None"
  then obtain e where f: "find (has_type ''turn.completed'') (rev events) = Some e"
    by (auto simp: usage_of_def split: option.splits)
  then have "e \<in> set (rev events)" and "has_type ''turn.completed'' e"
    by (auto dest: find_Some_set)
  moreover from a f have "\<exists>v. field e ''usage'' = Some v \<and> v \<noteq> JNull"
    by (auto simp: usage_of_def split: option.splits if_splits)
  ultimately show ?thesis by auto
qed

lemma final_message_of_source:
  "final_message_of events \<noteq> None \<Longrightarrow> \<exists>e \<in> set events. agent_text e \<noteq> None"
proof -
  assume a: "final_message_of events \<noteq> None"
  then obtain e where f: "find (\<lambda>e. agent_text e \<noteq> None) (rev events) = Some e"
    by (auto simp: final_message_of_def split: option.splits)
  then have "e \<in> set (rev events)" and "agent_text e \<noteq> None"
    by (auto dest: find_Some_set)
  then show ?thesis by auto
qed

lemmas run_reduce = reduce_events_def py_get_def sample_events_def usage1_def usage2_def
  well_formed_def is_obj_def has_type_def field_def agent_text_def thread_id_of_def
  usage_of_def final_message_of_def


text \<open>
  C3. The reduction of a well-formed sequence of events returns a summary in which
  \<open>thread_id\<close> is the \<open>thread_id\<close> member of the first \<open>thread.started\<close> event (there only
  when that member is non-empty), \<open>usage\<close> is the \<open>usage\<close> member of the last
  \<open>turn.completed\<close> event (there only when that member is present and not null), and
  \<open>final_message\<close> is the text of the last \<open>item.completed\<close> event whose item is an
  \<open>agent_message\<close> with a non-empty text. A sequence that is not well formed ends the
  reduction with \<open>AttributeError\<close>. The witness is the sequence of the specification:
  one \<open>thread.started\<close> event with \<open>thread_id\<close> \<open>t1\<close>, two \<open>turn.completed\<close> events with
  different usages and one agent message; the summary holds \<open>t1\<close>, the second usage and
  the text.
\<close>

theorem reduce_events_fields:
  "(well_formed events \<longrightarrow>
      (\<exists>summary. reduce_events events n rc = Inr summary
         \<and> map_of summary ''thread_id'' = thread_id_of events
         \<and> map_of summary ''usage'' = usage_of events
         \<and> map_of summary ''final_message'' = final_message_of events))
   \<and> (\<not> well_formed events \<longrightarrow> reduce_events events n rc = Inl AttributeError)"
  using reduce_events_summary [of events n rc] reduce_events_not_wf [of events n rc]
  by (auto simp: summary_of_lookup)

theorem reduce_events_fields_witness:
  "well_formed sample_events \<and> usage1 \<noteq> usage2
   \<and> (\<exists>summary. reduce_events sample_events 1 3 = Inr summary
         \<and> map_of summary ''thread_id'' = Some (JStr ''t1'')
         \<and> map_of summary ''usage'' = Some usage2
         \<and> map_of summary ''final_message'' = Some (JStr ''done''))"
proof -
  have wf: "well_formed sample_events" by (simp add: run_reduce)
  have t: "thread_id_of sample_events = Some (JStr ''t1'')" by (simp add: run_reduce)
  have u: "usage_of sample_events = Some usage2" by (simp add: run_reduce)
  have m: "final_message_of sample_events = Some (JStr ''done'')" by (simp add: run_reduce)
  have d: "usage1 \<noteq> usage2" by (simp add: usage1_def usage2_def)
  from reduce_events_fields [of sample_events 1 3] wf t u m d show ?thesis by simp
qed


text \<open>
  C6. The summary is sparse. For no events it consists of the four mandatory members and
  the two counters, with \<open>event_count\<close> \<open>0\<close>, and of nothing else. For any events, whenever
  the reduction returns a summary, it starts with those six members, any further member
  is one of \<open>thread_id\<close>, \<open>usage\<close> and \<open>final_message\<close>, and each of these is there only
  when an event provides it.
\<close>

theorem reduce_events_sparse:
  "reduce_events [] n rc =
     Inr [(''type'', JStr ''result''), (''subtype'', JStr ''codex_exec''),
          (''is_error'', JBool (rc \<noteq> 0)), (''returncode'', JInt rc),
          (''event_count'', JInt 0), (''non_json_line_count'', JInt (int n))]
   \<and> (\<forall>summary. reduce_events events n rc = Inr summary \<longrightarrow>
         map fst (take 6 summary)
           = [''type'', ''subtype'', ''is_error'', ''returncode'', ''event_count'',
              ''non_json_line_count'']
         \<and> set (map fst (drop 6 summary)) \<subseteq> {''thread_id'', ''usage'', ''final_message''}
         \<and> (''thread_id'' \<in> fst ` set summary \<longrightarrow>
              (\<exists>e \<in> set events. has_type ''thread.started'' e
                 \<and> (\<exists>v. field e ''thread_id'' = Some v \<and> truthy v)))
         \<and> (''usage'' \<in> fst ` set summary \<longrightarrow>
              (\<exists>e \<in> set events. has_type ''turn.completed'' e
                 \<and> (\<exists>v. field e ''usage'' = Some v \<and> v \<noteq> JNull)))
         \<and> (''final_message'' \<in> fst ` set summary \<longrightarrow>
              (\<exists>e \<in> set events. agent_text e \<noteq> None)))"
proof (intro conjI allI impI)
  show "reduce_events [] n rc =
     Inr [(''type'', JStr ''result''), (''subtype'', JStr ''codex_exec''),
          (''is_error'', JBool (rc \<noteq> 0)), (''returncode'', JInt rc),
          (''event_count'', JInt 0), (''non_json_line_count'', JInt (int n))]"
    by (simp add: reduce_events_def)
next
  fix summary
  assume r: "reduce_events events n rc = Inr summary"
  have wf: "well_formed events"
  proof (rule ccontr)
    assume "\<not> well_formed events"
    from reduce_events_not_wf[OF this, of n rc] r show False by simp
  qed
  from reduce_events_summary[OF wf, of n rc] r
  have s: "summary = summary_of events n rc" by simp
  show "map fst (take 6 summary)
           = [''type'', ''subtype'', ''is_error'', ''returncode'', ''event_count'',
              ''non_json_line_count'']"
    unfolding s by (rule summary_of_keys)
  show "set (map fst (drop 6 summary)) \<subseteq> {''thread_id'', ''usage'', ''final_message''}"
    unfolding s by (rule summary_of_keys)
  { assume "''thread_id'' \<in> fst ` set summary"
    then show "\<exists>e \<in> set events. has_type ''thread.started'' e
                 \<and> (\<exists>v. field e ''thread_id'' = Some v \<and> truthy v)"
      unfolding s summary_of_present by (rule thread_id_of_source) }
  { assume "''usage'' \<in> fst ` set summary"
    then show "\<exists>e \<in> set events. has_type ''turn.completed'' e
                 \<and> (\<exists>v. field e ''usage'' = Some v \<and> v \<noteq> JNull)"
      unfolding s summary_of_present by (rule usage_of_source) }
  { assume "''final_message'' \<in> fst ` set summary"
    then show "\<exists>e \<in> set events. agent_text e \<noteq> None"
      unfolding s summary_of_present by (rule final_message_of_source) }
qed

theorem reduce_events_sparse_witness:
  "reduce_events [JObj [(''type'', JStr ''thread.started''), (''thread_id'', JStr ''t1'')]] 0 0
     = Inr [(''type'', JStr ''result''), (''subtype'', JStr ''codex_exec''),
            (''is_error'', JBool False), (''returncode'', JInt 0),
            (''event_count'', JInt 1), (''non_json_line_count'', JInt 0),
            (''thread_id'', JStr ''t1'')]
   \<and> (\<exists>e \<in> set [JObj [(''type'', JStr ''thread.started''), (''thread_id'', JStr ''t1'')]].
         has_type ''thread.started'' e \<and> (\<exists>v. field e ''thread_id'' = Some v \<and> truthy v))"
proof -
  let ?evs = "[JObj [(''type'', JStr ''thread.started''), (''thread_id'', JStr ''t1'')]]"
  have r: "reduce_events ?evs 0 0
     = Inr [(''type'', JStr ''result''), (''subtype'', JStr ''codex_exec''),
            (''is_error'', JBool False), (''returncode'', JInt 0),
            (''event_count'', JInt 1), (''non_json_line_count'', JInt 0),
            (''thread_id'', JStr ''t1'')]"
    by (simp add: reduce_events_def py_get_def)
  from reduce_events_sparse [of 0 0 ?evs] r
  have "\<exists>e \<in> set ?evs. has_type ''thread.started'' e
          \<and> (\<exists>v. field e ''thread_id'' = Some v \<and> truthy v)"
    by simp
  with r show ?thesis by blast
qed

end
